theory Spec2Isabelle
  imports Main
begin

section \<open>Entities and tables\<close>

text \<open>
  The ORM entities the services read and write. Field names follow the source, with a
  short prefix per entity. Primary keys are the generated uuid strings of the source.
\<close>

record permission =
  p_name :: string
  p_resource :: string
  p_action :: string
  p_description :: "string option"

record role =
  r_id :: string
  r_name :: string
  r_permissions :: "permission list"

datatype UserStatus = ACTIVE | PENDING | SUSPENDED

record user =
  u_id :: string
  u_email :: string
  u_firstName :: "string option"
  u_lastName :: "string option"
  u_phoneNumber :: "string option"
  u_profilePicture :: "string option"
  u_roles :: "role list"
  u_companyId :: string
  u_invitedBy :: string
  u_isOnboarding :: bool
  u_isEmailVerified :: bool
  u_status :: UserStatus
  u_password :: string
  u_deleted :: bool

record company =
  c_id :: string
  c_name :: string

text \<open>
  The errors of the source are JavaScript exceptions: the plain \<open>Error\<close> thrown by the
  RBAC service, and the \<open>NotFoundError\<close> and \<open>ValidationError\<close> classes of the user
  service. Each carries its message.
\<close>

datatype error = Error string | NotFoundError string | ValidationError string

text \<open>What the cache stores under a key: a serialized user, or a serialized list page.\<close>

datatype cache_value = UserValue user | PageValue "user list" nat

datatype analytics_type = Monthly | Trends | Summary

record job =
  j_name :: string
  j_companyId :: string
  j_type :: analytics_type
  j_userId :: string
  j_availableAt :: nat

text \<open>
  The state the services act on: the three RBAC tables, the company table, the cache
  (key to value and expiry time), the analytics queue, the clock in milliseconds and the
  counter of generated primary keys.
\<close>

record state =
  users :: "user list"
  roles :: "role list"
  permissions :: "permission list"
  companies :: "company list"
  cache :: "string \<Rightarrow> (cache_value \<times> nat) option"
  analyticsQueue :: "job list"
  clock :: nat
  nextId :: nat

type_synonym uuid_gen = "nat \<Rightarrow> string"

section \<open>Constants of utils/constant\<close>

definition mkPerm :: "string \<Rightarrow> string \<Rightarrow> string \<Rightarrow> permission" where
  "mkPerm n r a = \<lparr>p_name = n, p_resource = r, p_action = a, p_description = None\<rparr>"

definition APP_PERMISSIONS :: "permission list" where
  "APP_PERMISSIONS =
    [mkPerm ''transaction:read'' ''transaction'' ''read'',
     mkPerm ''transaction:write'' ''transaction'' ''write'',
     mkPerm ''transaction:delete'' ''transaction'' ''delete'',
     mkPerm ''company:read'' ''company'' ''read'',
     mkPerm ''company:write'' ''company'' ''write'',
     mkPerm ''user:read'' ''user'' ''read'',
     mkPerm ''user:write'' ''user'' ''write'',
     mkPerm ''user:delete'' ''user'' ''delete'',
     mkPerm ''notice:read'' ''notice'' ''read'',
     mkPerm ''notice:write'' ''notice'' ''write'',
     mkPerm ''analytics:read'' ''analytics'' ''read'',
     mkPerm ''*:*'' ''*'' ''*'']"

definition SUPER_ADMIN :: string where "SUPER_ADMIN = ''super_admin''"
definition ADMIN :: string where "ADMIN = ''admin''"
definition MANAGER :: string where "MANAGER = ''manager''"
definition MEMBER :: string where "MEMBER = ''member''"

record roleData =
  rd_name :: string
  rd_description :: string
  rd_permissions :: "string list"

definition APP_ROLES :: "roleData list" where
  "APP_ROLES =
    [\<lparr>rd_name = SUPER_ADMIN,
      rd_description = ''Super Administrator with full system access'',
      rd_permissions = [''*:*'']\<rparr>,
     \<lparr>rd_name = ADMIN,
      rd_description = ''Administrator with comprehensive management access'',
      rd_permissions =
        [''transaction:read'', ''transaction:write'', ''transaction:delete'',
         ''company:read'', ''company:write'', ''user:read'', ''user:write'',
         ''user:delete'', ''notice:read'', ''notice:write'', ''analytics:read'']\<rparr>,
     \<lparr>rd_name = MANAGER,
      rd_description = ''Manager with operational access'',
      rd_permissions =
        [''transaction:read'', ''transaction:write'', ''company:read'', ''user:read'',
         ''notice:read'', ''notice:write'', ''analytics:read'']\<rparr>,
     \<lparr>rd_name = MEMBER,
      rd_description = ''Basic member with read-only access'',
      rd_permissions =
        [''transaction:read'', ''company:read'', ''user:read'', ''notice:read'']\<rparr>]"

definition ROLE_HIERARCHY :: "string list" where
  "ROLE_HIERARCHY = [MEMBER, MANAGER, ADMIN, SUPER_ADMIN]"

definition CACHE_CONFIG_list :: nat where "CACHE_CONFIG_list = 5 * 60"
definition CACHE_CONFIG_detail :: nat where "CACHE_CONFIG_detail = 10 * 60"

section \<open>Library functions of the host language\<close>

text \<open>\<open>Array.prototype.indexOf\<close>: the first position of the element, or \<open>-1\<close>.\<close>

fun indexOf_from :: "nat \<Rightarrow> 'a list \<Rightarrow> 'a \<Rightarrow> int" where
  "indexOf_from i [] x = - 1"
| "indexOf_from i (y # ys) x = (if y = x then int i else indexOf_from (Suc i) ys x)"

definition indexOf :: "'a list \<Rightarrow> 'a \<Rightarrow> int" where
  "indexOf xs x = indexOf_from 0 xs x"

text \<open>\<open>Array.prototype.join\<close>.\<close>

fun join :: "string \<Rightarrow> string list \<Rightarrow> string" where
  "join sep [] = []"
| "join sep [x] = x"
| "join sep (x # y # ys) = x @ sep @ join sep (y # ys)"

text \<open>
  Repository lookups. \<open>findOne\<close> with a \<open>where\<close> object is the first row that satisfies
  it; \<open>find\<close> with a list of alternative \<open>{ name }\<close> conditions selects the rows whose
  name is one of the listed ones, each row once, in table order. An empty list of
  alternatives puts no condition on the rows, and every row is selected. Soft-removed
  users are not selected.
\<close>

definition findByNames :: "('a \<Rightarrow> string) \<Rightarrow> string list \<Rightarrow> 'a list \<Rightarrow> 'a list" where
  "findByNames nm names rows =
     (if names = [] then rows else filter (\<lambda>x. nm x \<in> set names) rows)"

definition findUser :: "state \<Rightarrow> string \<Rightarrow> user option" where
  "findUser st userId = find (\<lambda>u. u_id u = userId \<and> \<not> u_deleted u) (users st)"

definition findRole :: "state \<Rightarrow> string \<Rightarrow> role option" where
  "findRole st roleName = find (\<lambda>r. r_name r = roleName) (roles st)"

definition findPermission :: "state \<Rightarrow> string \<Rightarrow> permission option" where
  "findPermission st name = find (\<lambda>p. p_name p = name) (permissions st)"

section \<open>RBACService: checks\<close>

text \<open>
  \<open>checkUserPermission\<close>: the two nested loops of the source, each returning at the
  first permission that matches.
\<close>

definition permissionGrants :: "permission \<Rightarrow> string \<Rightarrow> string \<Rightarrow> bool" where
  "permissionGrants permission resource action =
     (if p_resource permission = resource \<and>
         (p_action permission = action \<or> p_action permission = ''*'')
      then True
      else if p_resource permission = ''*'' \<and> p_action permission = ''*''
      then True
      else False)"

primrec checkPermissions :: "permission list \<Rightarrow> string \<Rightarrow> string \<Rightarrow> bool" where
  "checkPermissions [] resource action = False"
| "checkPermissions (permission # ps) resource action =
     (if permissionGrants permission resource action then True
      else checkPermissions ps resource action)"

primrec checkRoles :: "role list \<Rightarrow> string \<Rightarrow> string \<Rightarrow> bool" where
  "checkRoles [] resource action = False"
| "checkRoles (role # rs) resource action =
     (if checkPermissions (r_permissions role) resource action then True
      else checkRoles rs resource action)"

definition checkUserPermission :: "user \<Rightarrow> string \<Rightarrow> string \<Rightarrow> bool" where
  "checkUserPermission user resource action = checkRoles (u_roles user) resource action"

definition hasPermission :: "state \<Rightarrow> string \<Rightarrow> string \<Rightarrow> string \<Rightarrow> error + bool" where
  "hasPermission st userId resource action =
     (case findUser st userId of
        None \<Rightarrow> Inr False
      | Some user \<Rightarrow> Inr (checkUserPermission user resource action))"

definition hasAnyPermission :: "state \<Rightarrow> string \<Rightarrow> string \<Rightarrow> string list \<Rightarrow> error + bool" where
  "hasAnyPermission st userId resource actions =
     (case findUser st userId of
        None \<Rightarrow> Inr False
      | Some user \<Rightarrow>
          Inr (list_ex (\<lambda>action. checkUserPermission user resource action) actions))"

definition hasAllPermissions :: "state \<Rightarrow> string \<Rightarrow> string \<Rightarrow> string list \<Rightarrow> error + bool" where
  "hasAllPermissions st userId resource actions =
     (case findUser st userId of
        None \<Rightarrow> Inr False
      | Some user \<Rightarrow>
          Inr (list_all (\<lambda>action. checkUserPermission user resource action) actions))"

definition hasMinimumRole :: "state \<Rightarrow> string \<Rightarrow> string \<Rightarrow> error + bool" where
  "hasMinimumRole st userId minimumRole =
     (case findUser st userId of
        None \<Rightarrow> Inr False
      | Some user \<Rightarrow>
          (let roleHierarchy = ROLE_HIERARCHY;
               minimumLevel = indexOf roleHierarchy minimumRole
           in if minimumLevel = - 1
              then Inl (Error (''Unknown role: '' @ minimumRole))
              else Inr (list_ex
                     (\<lambda>role. indexOf roleHierarchy (r_name role) \<ge> minimumLevel)
                     (u_roles user))))"

section \<open>Authorization middleware\<close>

datatype response = Next | Status nat string

text \<open>
  \<open>authorizeAll\<close>: \<open>req.user\<close> is the authenticated user's id when there is one. An
  exception of the check is answered with status 500.
\<close>

definition authorizeAll :: "string \<Rightarrow> string list \<Rightarrow> string option \<Rightarrow> state \<Rightarrow> response" where
  "authorizeAll resource actions req_user st =
     (case req_user of
        None \<Rightarrow> Status 401 ''Authentication required''
      | Some uid \<Rightarrow>
          (case hasAllPermissions st uid resource actions of
             Inl e \<Rightarrow> Status 500 ''Authorization error''
           | Inr ok \<Rightarrow>
               if \<not> ok
               then Status 403 (''Insufficient permissions. Required all: '' @
                      join '', '' (map (\<lambda>a. resource @ '':'' @ a) actions))
               else Next))"

section \<open>RBACService: mutations\<close>

text \<open>
  \<open>userRepo.save\<close> of a loaded user rewrites the row with that primary key. A mutating
  operation returns its result together with the state it leaves; a thrown exception
  leaves the state as it was when it was thrown.
\<close>

definition saveUser :: "user \<Rightarrow> state \<Rightarrow> state" where
  "saveUser user st =
     st\<lparr>users := map (\<lambda>u. if u_id u = u_id user then user else u) (users st)\<rparr>"

definition assignRole :: "string \<Rightarrow> string \<Rightarrow> state \<Rightarrow> (error + unit) \<times> state" where
  "assignRole userId roleName st =
     (case findUser st userId of
        None \<Rightarrow> (Inl (Error ''User or role not found''), st)
      | Some user \<Rightarrow>
          (case findRole st roleName of
             None \<Rightarrow> (Inl (Error ''User or role not found''), st)
           | Some role \<Rightarrow>
               if \<not> list_ex (\<lambda>r. r_id r = r_id role) (u_roles user)
               then (Inr (), saveUser (user\<lparr>u_roles := u_roles user @ [role]\<rparr>) st)
               else (Inr (), st)))"




text \<open>\<open>seedRolesAndPermissions\<close>: the two loops over the built-in tables.\<close>

fun seedPermissions :: "permission list \<Rightarrow> state \<Rightarrow> state" where
  "seedPermissions [] st = st"
| "seedPermissions (perm # ps) st =
     seedPermissions ps
       (case findPermission st (p_name perm) of
          None \<Rightarrow> st\<lparr>permissions := permissions st @ [perm]\<rparr>
        | Some existingPerm \<Rightarrow> st)"

fun seedRoles :: "uuid_gen \<Rightarrow> roleData list \<Rightarrow> state \<Rightarrow> state" where
  "seedRoles gen [] st = st"
| "seedRoles gen (roleData # rds) st =
     seedRoles gen rds
       (case findRole st (rd_name roleData) of
          None \<Rightarrow>
            (let perms = findByNames p_name (rd_permissions roleData) (permissions st);
                 role = \<lparr>r_id = gen (nextId st), r_name = rd_name roleData,
                         r_permissions = perms\<rparr>
             in st\<lparr>roles := roles st @ [role], nextId := Suc (nextId st)\<rparr>)
        | Some existingRole \<Rightarrow> st)"

definition seedRolesAndPermissions :: "uuid_gen \<Rightarrow> state \<Rightarrow> (error + unit) \<times> state" where
  "seedRolesAndPermissions gen st =
     (Inr (), seedRoles gen APP_ROLES (seedPermissions APP_PERMISSIONS st))"

section \<open>CacheService\<close>

text \<open>Modelled from the spec: \<open>CacheService\<close> (services/cache.service) is not among the
  sources. A stored value is read back until its time-to-live has elapsed.
\<close>

definition cacheGet :: "state \<Rightarrow> string \<Rightarrow> cache_value option" where
  "cacheGet st key =
     (case cache st key of
        None \<Rightarrow> None
      | Some (v, expires) \<Rightarrow> if clock st < expires then Some v else None)"

text \<open>Modelled from the spec: \<open>CacheService\<close> is not among the sources. A value is stored
  with a time-to-live given in seconds.
\<close>

definition cacheSet :: "string \<Rightarrow> cache_value \<Rightarrow> nat \<Rightarrow> state \<Rightarrow> state" where
  "cacheSet key v ttlSeconds st =
     st\<lparr>cache := (cache st)(key \<mapsto> (v, clock st + ttlSeconds * 1000))\<rparr>"

text \<open>Modelled from the spec: the pattern language of \<open>CacheService.deletePattern\<close> is not
  among the sources. A pattern is a glob in which \<open>*\<close> stands for any run of characters.
\<close>

fun globMatch :: "string \<Rightarrow> string \<Rightarrow> bool" where
  "globMatch [] s = (s = [])"
| "globMatch (p # ps) [] = (p = CHR ''*'' \<and> globMatch ps [])"
| "globMatch (p # ps) (c # cs) =
     (if p = CHR ''*'' then globMatch ps (c # cs) \<or> globMatch (p # ps) cs
      else p = c \<and> globMatch ps cs)"

text \<open>Modelled from the spec: \<open>CacheService.deletePattern\<close> is not among the sources. It
  removes every stored key that matches the pattern.
\<close>

definition deletePattern :: "string \<Rightarrow> state \<Rightarrow> state" where
  "deletePattern pattern st =
     st\<lparr>cache := (\<lambda>k. if globMatch pattern k then None else cache st k)\<rparr>"

text \<open>Modelled from the spec: \<open>CacheService.withCache\<close> is not among the sources. Without
  \<open>useCache\<close> it computes and stores nothing; on a hit it returns the cached value
  without computing; on a miss it computes, stores the result with the time-to-live and
  returns it. An exception of the computation is passed on and nothing is stored.
\<close>

definition withCache ::
  "string \<Rightarrow> (state \<Rightarrow> error + cache_value) \<Rightarrow> bool \<Rightarrow> nat \<Rightarrow> state
     \<Rightarrow> (error + cache_value) \<times> state" where
  "withCache key compute useCache ttlSeconds st =
     (if \<not> useCache then (compute st, st)
      else case cacheGet st key of
             Some v \<Rightarrow> (Inr v, st)
           | None \<Rightarrow>
               (case compute st of
                  Inl e \<Rightarrow> (Inl e, st)
                | Inr v \<Rightarrow> (Inr v, cacheSet key v ttlSeconds st)))"

section \<open>UserService\<close>

text \<open>
  Template literals print a number in decimal. The page and the limit of a request are
  taken to be whole numbers below \<open>10^21\<close>, which is where the host language changes to
  exponent notation.
\<close>

definition digitChar :: "nat \<Rightarrow> char" where
  "digitChar d = ''0123456789'' ! d"

fun decimal :: "nat \<Rightarrow> string" where
  "decimal n = (if n < 10 then [digitChar n] else decimal (n div 10) @ [digitChar (n mod 10)])"

declare decimal.simps [simp del]

definition numberToString :: "int \<Rightarrow> string" where
  "numberToString x = (if 0 \<le> x then decimal (nat x) else CHR ''-'' # decimal (nat (- x)))"

record UserQueryParams =
  q_page :: "int option"
  q_limit :: "int option"
  q_sortBy :: "string option"
  q_sortOrder :: "string option"
  q_search :: "string option"
  q_status :: "UserStatus option"
  q_role :: "string option"
  q_includeInactive :: "bool option"

text \<open>
  The \<open>params\<close> object of \<open>generateCacheKey\<close>, with the properties its callers pass. A
  property is pushed when it is truthy: a defined, non-empty string, or a defined number
  other than zero.
\<close>

record keyParams =
  kp_id :: "string option"
  kp_companyId :: "string option"
  kp_page :: "int option"
  kp_limit :: "int option"
  kp_filters :: "UserQueryParams option"

definition pushStr :: "string \<Rightarrow> string option \<Rightarrow> string list \<Rightarrow> string list" where
  "pushStr pre v keyParts =
     (case v of
        None \<Rightarrow> keyParts
      | Some s \<Rightarrow> if s = [] then keyParts else keyParts @ [pre @ s])"

definition pushNum :: "string \<Rightarrow> int option \<Rightarrow> string list \<Rightarrow> string list" where
  "pushNum pre v keyParts =
     (case v of
        None \<Rightarrow> keyParts
      | Some n \<Rightarrow> if n = 0 then keyParts else keyParts @ [pre @ numberToString n])"

definition generateCacheKey :: "string \<Rightarrow> keyParams \<Rightarrow> string" where
  "generateCacheKey type params =
     (let keyParts = [type];
          keyParts = pushStr [] (kp_id params) keyParts;
          keyParts = pushStr ''company:'' (kp_companyId params) keyParts;
          keyParts = pushNum ''page:'' (kp_page params) keyParts;
          keyParts = pushNum ''limit:'' (kp_limit params) keyParts
      in ''user:'' @ join '':'' keyParts)"

text \<open>The \<open>cacheKey\<close> under which \<open>getUsers\<close> reads and stores its page.\<close>

definition getUsers_cacheKey :: "UserQueryParams \<Rightarrow> string \<Rightarrow> string" where
  "getUsers_cacheKey params companyId =
     generateCacheKey ''list''
       \<lparr>kp_id = None, kp_companyId = Some companyId, kp_page = q_page params,
        kp_limit = q_limit params, kp_filters = Some params\<rparr>"

definition invalidateUserCaches :: "string \<Rightarrow> string option \<Rightarrow> state \<Rightarrow> state" where
  "invalidateUserCaches companyId userId st =
     (let patterns = [''user:list:company:'' @ companyId @ ''*''];
          patterns = (case userId of
                        None \<Rightarrow> patterns
                      | Some uid \<Rightarrow>
                          if uid = [] then patterns
                          else patterns @ [''user:detail:'' @ uid])
      in fold deletePattern patterns st)"

definition findCompanyUser :: "state \<Rightarrow> string \<Rightarrow> string \<Rightarrow> user option" where
  "findCompanyUser st ident companyId =
     find (\<lambda>u. u_id u = ident \<and> u_companyId u = companyId \<and> \<not> u_deleted u) (users st)"

text \<open>
  \<open>getUserById\<close> returns what \<open>withCache\<close> gives it: the cached value on a hit, the
  stored user on a miss.
\<close>

definition getUserById :: "string \<Rightarrow> string \<Rightarrow> state \<Rightarrow> (error + cache_value) \<times> state" where
  "getUserById ident companyId st =
     (let cacheKey = ''user:detail:'' @ ident
      in withCache cacheKey
           (\<lambda>s. case findCompanyUser s ident companyId of
                   None \<Rightarrow> Inl (NotFoundError ''User not found'')
                 | Some user \<Rightarrow> Inr (UserValue user))
           True CACHE_CONFIG_detail st)"

text \<open>\<open>deleteUser\<close>: \<open>softRemove\<close> marks the row as deleted and saves it.\<close>

definition deleteUser :: "string \<Rightarrow> string \<Rightarrow> state \<Rightarrow> (error + string) \<times> state" where
  "deleteUser ident companyId st =
     (case findCompanyUser st ident companyId of
        None \<Rightarrow> (Inl (NotFoundError ''User not found''), st)
      | Some user \<Rightarrow>
          (Inr ''User deleted successfully'', saveUser (user\<lparr>u_deleted := True\<rparr>) st))"

record CreateCompanyUserData =
  cu_email :: string
  cu_firstName :: "string option"
  cu_lastName :: "string option"
  cu_phoneNumber :: "string option"
  cu_profilePicture :: "string option"
  cu_roles :: "string list option"
  cu_status :: "UserStatus option"

text \<open>
  The role lookup of \<open>createUser\<close>: the requested names when \<open>data.roles\<close> has a length
  other than zero, the member role otherwise.
\<close>

definition lookupRoles :: "string list option \<Rightarrow> state \<Rightarrow> role list" where
  "lookupRoles dataRoles st =
     (case dataRoles of
        None \<Rightarrow> findByNames r_name [MEMBER] (roles st)
      | Some rs \<Rightarrow>
          if length rs \<noteq> 0 then findByNames r_name rs (roles st)
          else findByNames r_name [MEMBER] (roles st))"

text \<open>
  \<open>createUser\<close>. The random password and the mail transport (\<open>processEmail\<close>, which may
  throw) are parameters; the saved user takes the next generated primary key.
\<close>

definition createUser ::
  "uuid_gen \<Rightarrow> string \<Rightarrow> (user \<Rightarrow> string \<Rightarrow> error option) \<Rightarrow> CreateCompanyUserData
     \<Rightarrow> string \<Rightarrow> string \<Rightarrow> bool \<Rightarrow> state \<Rightarrow> (error + user) \<times> state" where
  "createUser gen password processEmail data companyId userId invited st =
     (case find (\<lambda>u. u_email u = cu_email data \<and> \<not> u_deleted u) (users st) of
        Some existingUser \<Rightarrow>
          (Inl (ValidationError ''User already exists with this email''), st)
      | None \<Rightarrow>
          (case find (\<lambda>c. c_id c = companyId) (companies st) of
             None \<Rightarrow> (Inl (ValidationError ''Company not found''), st)
           | Some company \<Rightarrow>
               (let roles1 = lookupRoles (cu_roles data) st;
                    seeded = (if roles1 = [] then seedRolesAndPermissions gen st
                              else (Inr (), st))
                in case seeded of
                     (Inl e, st1) \<Rightarrow> (Inl e, st1)
                   | (Inr _, st1) \<Rightarrow>
                       (let roles2 = (if roles1 = [] then lookupRoles (cu_roles data) st1
                                      else roles1);
                            roles3 = (if roles2 = []
                                      then findByNames r_name [MEMBER] (roles st1)
                                      else roles2);
                            savedUser =
                              \<lparr>u_id = gen (nextId st1), u_email = cu_email data,
                               u_firstName = cu_firstName data,
                               u_lastName = cu_lastName data,
                               u_phoneNumber = cu_phoneNumber data,
                               u_profilePicture = cu_profilePicture data,
                               u_roles = roles3, u_companyId = companyId,
                               u_invitedBy = userId, u_isOnboarding = False,
                               u_isEmailVerified = invited,
                               u_status = (if invited then PENDING else ACTIVE),
                               u_password = password, u_deleted = False\<rparr>;
                            st2 = st1\<lparr>users := users st1 @ [savedUser],
                                      nextId := Suc (nextId st1)\<rparr>;
                            mailed = (if \<not> invited then processEmail savedUser password
                                      else None)
                        in case mailed of
                             Some e \<Rightarrow> (Inl e, st2)
                           | None \<Rightarrow>
                               (Inr savedUser, invalidateUserCaches companyId None st2)))))"

section \<open>QueueService\<close>

text \<open>Modelled from the spec: the queue behind \<open>analyticsQueue.add\<close> (config/queue.config)
  is not among the sources. Enqueueing records the job; it becomes visible to workers
  once its delay, in milliseconds, has elapsed.
\<close>

definition queueAdd ::
  "string \<Rightarrow> string \<times> analytics_type \<times> string \<Rightarrow> nat \<Rightarrow> state \<Rightarrow> job \<times> state" where
  "queueAdd name payload delay st =
     (case payload of
        (companyId, type, userId) \<Rightarrow>
          (let j = \<lparr>j_name = name, j_companyId = companyId, j_type = type,
                    j_userId = userId, j_availableAt = clock st + delay\<rparr>
           in (j, st\<lparr>analyticsQueue := analyticsQueue st @ [j]\<rparr>)))"

text \<open>Modelled from the spec: the jobs of the analytics queue that workers can see at the
  current time.
\<close>

definition visibleJobs :: "state \<Rightarrow> job list" where
  "visibleJobs st = filter (\<lambda>j. j_availableAt j \<le> clock st) (analyticsQueue st)"

definition calculateAnalytics ::
  "string \<Rightarrow> analytics_type \<Rightarrow> string \<Rightarrow> state \<Rightarrow> job \<times> state" where
  "calculateAnalytics companyId type userId st =
     queueAdd ''calculate-analytics'' (companyId, type, userId) 2000 st"

text \<open>Time passing between two calls.\<close>

definition elapse :: "nat \<Rightarrow> state \<Rightarrow> state" where
  "elapse ms st = st\<lparr>clock := clock st + ms\<rparr>"

section \<open>Example data\<close>

definition memberPerms :: "permission list" where
  "memberPerms =
    [mkPerm ''transaction:read'' ''transaction'' ''read'',
     mkPerm ''company:read'' ''company'' ''read'',
     mkPerm ''user:read'' ''user'' ''read'',
     mkPerm ''notice:read'' ''notice'' ''read'']"

definition memberRole :: role where
  "memberRole = \<lparr>r_id = ''r1'', r_name = MEMBER, r_permissions = memberPerms\<rparr>"

definition auditorRole :: role where
  "auditorRole = \<lparr>r_id = ''r2'', r_name = ''auditor'', r_permissions = []\<rparr>"

definition adminRole :: role where
  "adminRole =
     \<lparr>r_id = ''r3'', r_name = ADMIN,
      r_permissions = [mkPerm ''transaction:read'' ''transaction'' ''read'',
                       mkPerm ''transaction:write'' ''transaction'' ''write'']\<rparr>"

definition mkUser :: "string \<Rightarrow> string \<Rightarrow> role list \<Rightarrow> user" where
  "mkUser ident email rs =
     \<lparr>u_id = ident, u_email = email, u_firstName = None, u_lastName = None,
      u_phoneNumber = None, u_profilePicture = None, u_roles = rs, u_companyId = ''c1'',
      u_invitedBy = ''u0'', u_isOnboarding = False, u_isEmailVerified = True,
      u_status = ACTIVE, u_password = ''secret'', u_deleted = False\<rparr>"

definition alice :: user where
  "alice = mkUser ''u1'' ''alice@example.com'' [memberRole]"

definition bob :: user where
  "bob = mkUser ''u2'' ''bob@example.com'' [auditorRole]"

definition carol :: user where
  "carol = mkUser ''u3'' ''carol@example.com'' [adminRole]"

definition exampleState :: state where
  "exampleState =
     \<lparr>users = [alice, bob, carol], roles = [memberRole, auditorRole, adminRole],
      permissions = memberPerms @ [mkPerm ''transaction:write'' ''transaction'' ''write''],
      companies = [\<lparr>c_id = ''c1'', c_name = ''Acme''\<rparr>], cache = (\<lambda>k. None),
      analyticsQueue = [], clock = 0, nextId = 0\<rparr>"

text \<open>The same company with an empty role table and an empty permission table.\<close>

definition unseededState :: state where
  "unseededState =
     \<lparr>users = [], roles = [], permissions = [],
      companies = [\<lparr>c_id = ''c1'', c_name = ''Acme''\<rparr>], cache = (\<lambda>k. None),
      analyticsQueue = [], clock = 0, nextId = 0\<rparr>"

definition exampleGen :: uuid_gen where
  "exampleGen n = ''id-'' @ decimal n"

definition noMailError :: "user \<Rightarrow> string \<Rightarrow> error option" where
  "noMailError u pw = None"

definition ghostData :: CreateCompanyUserData where
  "ghostData =
     \<lparr>cu_email = ''dave@example.com'', cu_firstName = None, cu_lastName = None,
      cu_phoneNumber = None, cu_profilePicture = None, cu_roles = Some [''ghost''],
      cu_status = None\<rparr>"

definition searchAlice :: UserQueryParams where
  "searchAlice =
     \<lparr>q_page = Some 1, q_limit = Some 20, q_sortBy = None, q_sortOrder = None,
      q_search = Some ''alice'', q_status = None, q_role = None, q_includeInactive = None\<rparr>"

definition searchSuspended :: UserQueryParams where
  "searchSuspended =
     \<lparr>q_page = Some 1, q_limit = Some 20, q_sortBy = None, q_sortOrder = None,
      q_search = Some ''bob'', q_status = Some SUSPENDED, q_role = Some ''admin'',
      q_includeInactive = Some True\<rparr>"

text \<open>
  A state in which the detail entry of user \<open>u1\<close> and a list page of company \<open>c1\<close> are
  cached.
\<close>

definition cachedState :: state where
  "cachedState =
     cacheSet (getUsers_cacheKey searchAlice ''c1'') (PageValue [alice] 1) CACHE_CONFIG_list
       (snd (getUserById ''u1'' ''c1'' exampleState))"

text \<open>Four analytics triggers for the same company, half a second apart.\<close>

definition trigger :: "state \<Rightarrow> state" where
  "trigger st = snd (calculateAnalytics ''c1'' Summary ''u1'' st)"

definition fourTriggers :: state where
  "fourTriggers =
     trigger (elapse 500 (trigger (elapse 500 (trigger (elapse 500 (trigger exampleState))))))"

definition dave :: user where
  "dave =
     \<lparr>u_id = ''id-4'', u_email = ''dave@example.com'', u_firstName = None, u_lastName = None,
      u_phoneNumber = None, u_profilePicture = None,
      u_roles = [\<lparr>r_id = ''id-3'', r_name = MEMBER, r_permissions = memberPerms\<rparr>],
      u_companyId = ''c1'', u_invitedBy = ''u0'', u_isOnboarding = False,
      u_isEmailVerified = False, u_status = ACTIVE, u_password = ''pw'', u_deleted = False\<rparr>"

lemmas example_defs = exampleState_def alice_def bob_def carol_def mkUser_def memberRole_def
  auditorRole_def adminRole_def memberPerms_def mkPerm_def MEMBER_def MANAGER_def ADMIN_def
  SUPER_ADMIN_def ROLE_HIERARCHY_def

section \<open>Lemmas on the library functions and the lookups\<close>

lemma indexOf_from_absent: "x \<notin> set xs \<Longrightarrow> indexOf_from i xs x = - 1"
  by (induction xs arbitrary: i) auto

lemma indexOf_from_present: "x \<in> set xs \<Longrightarrow> int i \<le> indexOf_from i xs x"
proof (induction xs arbitrary: i)
  case Nil
  then show ?case by simp
next
  case (Cons y ys)
  show ?case
  proof (cases "y = x")
    case True
    then show ?thesis by simp
  next
    case False
    with Cons.prems have "x \<in> set ys" by simp
    from Cons.IH [OF this, of "Suc i"] False show ?thesis by simp
  qed
qed

lemma indexOf_absent_iff: "indexOf xs x = - 1 \<longleftrightarrow> x \<notin> set xs"
  using indexOf_from_absent [of x xs 0] indexOf_from_present [of x xs 0]
  by (auto simp: indexOf_def)

lemma indexOf_present: "x \<in> set xs \<Longrightarrow> 0 \<le> indexOf xs x"
  using indexOf_from_present [of x xs 0] by (simp add: indexOf_def)

lemma find_None_iff_names: "find (\<lambda>x. f x = n) xs = None \<longleftrightarrow> n \<notin> f ` set xs"
  by (auto simp: find_None_iff)

lemma findRole_None_iff: "findRole st n = None \<longleftrightarrow> n \<notin> r_name ` set (roles st)"
  by (simp add: findRole_def find_None_iff_names)


lemma findByNames_empty: "findByNames f [] rows = rows"
  by (simp add: findByNames_def)


lemma findUser_SomeD:
  "findUser st userId = Some user \<Longrightarrow>
     u_id user = userId \<and> \<not> u_deleted user \<and> user \<in> set (users st)"
  by (auto simp: findUser_def find_Some_iff)

lemma find_after_save:
  assumes "find (\<lambda>u. u_id u = k \<and> \<not> u_deleted u) us = Some old"
    and "u_id new = k" and "\<not> u_deleted new"
  shows "find (\<lambda>u. u_id u = k \<and> \<not> u_deleted u) (map (\<lambda>u. if u_id u = k then new else u) us)
           = Some new"
  using assms by (induction us) (auto split: if_splits)

lemma findUser_saveUser:
  assumes "findUser st userId = Some user"
    and "u_id new = userId" and "\<not> u_deleted new"
  shows "findUser (saveUser new st) userId = Some new"
  using find_after_save [OF assms(1) [unfolded findUser_def] assms(2,3)] assms(2)
  by (simp add: findUser_def saveUser_def)

lemma findRole_saveUser: "findRole (saveUser new st) roleName = findRole st roleName"
  by (simp add: findRole_def saveUser_def)

section \<open>Permission checks\<close>

lemma checkPermissions_iff:
  "checkPermissions ps r a \<longleftrightarrow>
     (\<exists>p \<in> set ps. (p_resource p = r \<and> p_action p = a) \<or>
                     (p_resource p = r \<and> p_action p = ''*'') \<or>
                     (p_resource p = ''*'' \<and> p_action p = ''*''))"
  by (induction ps) (auto simp: permissionGrants_def)

lemma checkRoles_iff:
  "checkRoles rs r a \<longleftrightarrow> (\<exists>role \<in> set rs. checkPermissions (r_permissions role) r a)"
  by (induction rs) auto

text \<open>
  Claim C1. \<open>hasPermission\<close> returns true exactly when the stored principal exists and some
  role it holds has a permission whose resource and action are the queried pair, or the
  queried resource with action \<open>*\<close>, or \<open>*\<close> and \<open>*\<close>. It never raises; for an id with no
  stored principal it returns false.
\<close>

theorem hasPermission_iff:
  "hasPermission st userId r a =
     Inr (\<exists>user. findUser st userId = Some user \<and>
            (\<exists>role \<in> set (u_roles user). \<exists>p \<in> set (r_permissions role).
               (p_resource p = r \<and> p_action p = a) \<or>
               (p_resource p = r \<and> p_action p = ''*'') \<or>
               (p_resource p = ''*'' \<and> p_action p = ''*''))) \<and>
   (findUser st userId = None \<longrightarrow> hasPermission st userId r a = Inr False)"
  by (simp add: hasPermission_def checkUserPermission_def checkRoles_iff checkPermissions_iff
      split: option.splits)

text \<open>
  The member \<open>u1\<close> may read transactions and may not write them, the admin \<open>u3\<close> may write
  them, and the unknown id \<open>u9\<close> is answered with false.
\<close>

theorem hasPermission_iff_witness:
  "hasPermission exampleState ''u1'' ''transaction'' ''read'' = Inr True \<and>
   hasPermission exampleState ''u1'' ''transaction'' ''write'' = Inr False \<and>
   hasPermission exampleState ''u3'' ''transaction'' ''write'' = Inr True \<and>
   findUser exampleState ''u9'' = None \<and>
   hasPermission exampleState ''u9'' ''transaction'' ''read'' = Inr False"
  using hasPermission_iff [of exampleState "''u1''" "''transaction''" "''read''"]
    hasPermission_iff [of exampleState "''u1''" "''transaction''" "''write''"]
    hasPermission_iff [of exampleState "''u3''" "''transaction''" "''write''"]
    hasPermission_iff [of exampleState "''u9''" "''transaction''" "''read''"]
  by (simp add: example_defs findUser_def)

text \<open>
  Claim C9. For an existing principal, \<open>hasAllPermissions\<close> with an empty action list is
  true and \<open>hasAnyPermission\<close> with an empty action list is false, whatever the principal
  holds; \<open>authorizeAll\<close> with an empty action list lets the request of such a user pass.
\<close>

theorem empty_action_list:
  assumes "findUser st userId = Some user"
  shows "hasAllPermissions st userId resource [] = Inr True \<and>
         hasAnyPermission st userId resource [] = Inr False \<and>
         authorizeAll resource [] (Some userId) st = Next"
  using assms by (simp add: hasAllPermissions_def hasAnyPermission_def authorizeAll_def)

text \<open>User \<open>u2\<close> holds one role, which has no permission at all.\<close>

theorem empty_action_list_witness:
  "findUser exampleState ''u2'' = Some bob \<and>
   hasPermission exampleState ''u2'' ''transaction'' ''read'' = Inr False \<and>
   hasAllPermissions exampleState ''u2'' ''transaction'' [] = Inr True \<and>
   hasAnyPermission exampleState ''u2'' ''transaction'' [] = Inr False \<and>
   authorizeAll ''transaction'' [] (Some ''u2'') exampleState = Next"
proof -
  have h: "findUser exampleState ''u2'' = Some bob"
    by (simp add: example_defs findUser_def)
  have "hasPermission exampleState ''u2'' ''transaction'' ''read'' = Inr False"
    by (simp add: example_defs findUser_def hasPermission_def checkUserPermission_def)
  with h empty_action_list [OF h, of "''transaction''"] show ?thesis by simp
qed

section \<open>Minimum role\<close>

text \<open>
  Claim C2, as amended. For a stored principal, \<open>hasMinimumRole\<close> raises the error
  \<open>Unknown role\<close> exactly when \<open>minimumRole\<close> is absent from the hierarchy. Otherwise it
  returns whether some held role that is in the hierarchy stands at or above
  \<open>minimumRole\<close>: a held role name that is absent from the hierarchy raises nothing and
  counts for nothing.
\<close>

theorem hasMinimumRole_existing_principal:
  assumes "findUser st userId = Some user"
  shows "hasMinimumRole st userId m =
     (if m \<in> set ROLE_HIERARCHY
      then Inr (\<exists>role \<in> set (u_roles user). r_name role \<in> set ROLE_HIERARCHY \<and>
                  indexOf ROLE_HIERARCHY m \<le> indexOf ROLE_HIERARCHY (r_name role))
      else Inl (Error (''Unknown role: '' @ m)))"
proof (cases "m \<in> set ROLE_HIERARCHY")
  case False
  then show ?thesis using assms
    by (simp add: hasMinimumRole_def Let_def indexOf_absent_iff)
next
  case True
  then have lvl: "0 \<le> indexOf ROLE_HIERARCHY m" by (rule indexOf_present)
  have "indexOf ROLE_HIERARCHY m \<le> indexOf ROLE_HIERARCHY (r_name role) \<longleftrightarrow>
        r_name role \<in> set ROLE_HIERARCHY \<and>
        indexOf ROLE_HIERARCHY m \<le> indexOf ROLE_HIERARCHY (r_name role)" for role :: role
    using lvl indexOf_absent_iff [of ROLE_HIERARCHY "r_name role"] by auto
  then have "(\<exists>role \<in> set (u_roles user).
            indexOf ROLE_HIERARCHY m \<le> indexOf ROLE_HIERARCHY (r_name role)) =
        (\<exists>role \<in> set (u_roles user). r_name role \<in> set ROLE_HIERARCHY \<and>
            indexOf ROLE_HIERARCHY m \<le> indexOf ROLE_HIERARCHY (r_name role))"
    by blast
  moreover have "indexOf ROLE_HIERARCHY m \<noteq> - 1" using lvl by simp
  ultimately show ?thesis using assms True
    by (simp add: hasMinimumRole_def Let_def list_ex_iff)
qed

theorem hasMinimumRole_existing_principal_witness:
  "findUser exampleState ''u3'' = Some carol \<and>
   hasMinimumRole exampleState ''u3'' ''root'' = Inl (Error ''Unknown role: root'') \<and>
   hasMinimumRole exampleState ''u3'' MANAGER = Inr True \<and>
   hasMinimumRole exampleState ''u3'' SUPER_ADMIN = Inr False"
proof -
  have h: "findUser exampleState ''u3'' = Some carol"
    by (simp add: example_defs findUser_def)
  show ?thesis
    using h hasMinimumRole_existing_principal [OF h, of "''root''"]
      hasMinimumRole_existing_principal [OF h, of MANAGER]
      hasMinimumRole_existing_principal [OF h, of SUPER_ADMIN]
    by (simp add: example_defs indexOf_def)
qed

text \<open>
  User \<open>u2\<close> holds the role \<open>auditor\<close>, which the hierarchy does not declare: the check
  against \<open>member\<close> compares that name with the hierarchy, returns false and raises
  nothing.
\<close>

theorem hasMinimumRole_silent_counterexample:
  "findUser exampleState ''u2'' = Some bob \<and> auditorRole \<in> set (u_roles bob) \<and>
   r_name auditorRole \<notin> set ROLE_HIERARCHY \<and>
   indexOf ROLE_HIERARCHY (r_name auditorRole) = - 1 \<and>
   hasMinimumRole exampleState ''u2'' MEMBER = Inr False"
  by (simp add: example_defs findUser_def hasMinimumRole_def indexOf_def)

text \<open>
  Claim C7. If a stored principal holds a role at a level of the hierarchy, then
  \<open>hasMinimumRole\<close> is true for every role of the hierarchy at or below that level.
\<close>

theorem hasMinimumRole_monotonic:
  assumes "findUser st userId = Some user"
    and "role \<in> set (u_roles user)"
    and "r_name role \<in> set ROLE_HIERARCHY"
    and "R' \<in> set ROLE_HIERARCHY"
    and "indexOf ROLE_HIERARCHY R' \<le> indexOf ROLE_HIERARCHY (r_name role)"
  shows "hasMinimumRole st userId R' = Inr True"
proof -
  have "indexOf ROLE_HIERARCHY R' \<noteq> - 1"
    using assms(4) by (simp add: indexOf_absent_iff)
  moreover have "list_ex (\<lambda>r. indexOf ROLE_HIERARCHY R' \<le> indexOf ROLE_HIERARCHY (r_name r))
      (u_roles user)"
    using assms(2,5) by (auto simp: list_ex_iff)
  ultimately show ?thesis
    using assms(1) by (simp add: hasMinimumRole_def Let_def)
qed

theorem hasMinimumRole_monotonic_witness:
  "findUser exampleState ''u3'' = Some carol \<and> adminRole \<in> set (u_roles carol) \<and>
   r_name adminRole \<in> set ROLE_HIERARCHY \<and> MANAGER \<in> set ROLE_HIERARCHY \<and>
   indexOf ROLE_HIERARCHY MANAGER \<le> indexOf ROLE_HIERARCHY (r_name adminRole) \<and>
   hasMinimumRole exampleState ''u3'' MANAGER = Inr True"
proof -
  have h1: "findUser exampleState ''u3'' = Some carol"
    by (simp add: example_defs findUser_def)
  have h2: "adminRole \<in> set (u_roles carol)"
    by (simp add: example_defs)
  have h3: "r_name adminRole \<in> set ROLE_HIERARCHY"
    by (simp add: example_defs)
  have h4: "MANAGER \<in> set ROLE_HIERARCHY"
    by (simp add: example_defs)
  have h5: "indexOf ROLE_HIERARCHY MANAGER \<le> indexOf ROLE_HIERARCHY (r_name adminRole)"
    by (simp add: example_defs indexOf_def)
  from hasMinimumRole_monotonic [OF h1 h2 h3 h4 h5] h1 h2 h3 h4 h5
  show ?thesis by simp
qed

section \<open>Role assignment\<close>

lemma assignRole_cases:
  "assignRole userId roleName st =
     (case findUser st userId of
        None \<Rightarrow> (Inl (Error ''User or role not found''), st)
      | Some user \<Rightarrow>
          (case findRole st roleName of
             None \<Rightarrow> (Inl (Error ''User or role not found''), st)
           | Some role \<Rightarrow>
               if r_id role \<in> r_id ` set (u_roles user) then (Inr (), st)
               else (Inr (), saveUser (user\<lparr>u_roles := u_roles user @ [role]\<rparr>) st)))"
proof -
  have "list_ex (\<lambda>r. r_id r = k) rs \<longleftrightarrow> k \<in> r_id ` set rs" for k and rs :: "role list"
    by (induction rs) auto
  then show ?thesis
    by (simp add: assignRole_def split: option.splits)
qed

lemma assignRole_twice:
  "assignRole userId roleName (snd (assignRole userId roleName st)) =
     (fst (assignRole userId roleName st), snd (assignRole userId roleName st))"
proof (cases "findUser st userId")
  case None
  then show ?thesis by (simp add: assignRole_cases)
next
  case (Some user)
  note u = this
  show ?thesis
  proof (cases "findRole st roleName")
    case None
    with u show ?thesis by (simp add: assignRole_cases)
  next
    case (Some role)
    note r = this
    show ?thesis
    proof (cases "r_id role \<in> r_id ` set (u_roles user)")
      case True
      with u r show ?thesis by (simp add: assignRole_cases)
    next
      case False
      let ?new = "user\<lparr>u_roles := u_roles user @ [role]\<rparr>"
      have first: "assignRole userId roleName st = (Inr (), saveUser ?new st)"
        using u r False by (simp add: assignRole_cases)
      have "u_id ?new = userId" and "\<not> u_deleted ?new"
        using findUser_SomeD [OF u] by simp_all
      then have u': "findUser (saveUser ?new st) userId = Some ?new"
        using findUser_saveUser [OF u] by blast
      have r': "findRole (saveUser ?new st) roleName = Some role"
        using r by (simp add: findRole_saveUser)
      have "assignRole userId roleName (saveUser ?new st) = (Inr (), saveUser ?new st)"
        using u' r' by (simp add: assignRole_cases)
      with first show ?thesis by simp
    qed
  qed
qed

text \<open>
  Claim C6. \<open>assignRole\<close> is idempotent: a second \<open>assignRole\<close> with the same arguments
  leaves the state the first one left. Assigning a role the principal already holds
  changes nothing, and a role set without duplicate ids stays without duplicates.
\<close>

theorem assignRole_idempotent:
  "snd (assignRole userId roleName (snd (assignRole userId roleName st))) =
     snd (assignRole userId roleName st) \<and>
   (\<forall>user role. findUser st userId = Some user \<and> findRole st roleName = Some role \<and>
        r_id role \<in> r_id ` set (u_roles user) \<longrightarrow>
        assignRole userId roleName st = (Inr (), st)) \<and>
   (\<forall>user user'. findUser st userId = Some user \<and>
        findUser (snd (assignRole userId roleName st)) userId = Some user' \<and>
        distinct (map r_id (u_roles user)) \<longrightarrow>
        distinct (map r_id (u_roles user')))"
proof (intro conjI allI impI)
  show "snd (assignRole userId roleName (snd (assignRole userId roleName st))) =
     snd (assignRole userId roleName st)"
    by (simp add: assignRole_twice)
next
  fix user role
  assume "findUser st userId = Some user \<and> findRole st roleName = Some role \<and>
        r_id role \<in> r_id ` set (u_roles user)"
  then show "assignRole userId roleName st = (Inr (), st)"
    by (simp add: assignRole_cases)
next
  fix user user'
  assume a: "findUser st userId = Some user \<and>
        findUser (snd (assignRole userId roleName st)) userId = Some user' \<and>
        distinct (map r_id (u_roles user))"
  then have u: "findUser st userId = Some user"
    and u': "findUser (snd (assignRole userId roleName st)) userId = Some user'"
    and d: "distinct (map r_id (u_roles user))" by simp_all
  show "distinct (map r_id (u_roles user'))"
  proof (cases "findRole st roleName")
    case None
    with u u' d show ?thesis by (simp add: assignRole_cases)
  next
    case (Some role)
    show ?thesis
    proof (cases "r_id role \<in> r_id ` set (u_roles user)")
      case True
      with u u' d Some show ?thesis by (simp add: assignRole_cases)
    next
      case False
      let ?new = "user\<lparr>u_roles := u_roles user @ [role]\<rparr>"
      have "u_id ?new = userId" and "\<not> u_deleted ?new"
        using findUser_SomeD [OF u] by simp_all
      then have "findUser (saveUser ?new st) userId = Some ?new"
        using findUser_saveUser [OF u] by blast
      moreover have "snd (assignRole userId roleName st) = saveUser ?new st"
        using u Some False by (simp add: assignRole_cases)
      ultimately have "user' = ?new" using u' by simp
      then show ?thesis using d False by simp
    qed
  qed
qed

text \<open>
  The member \<open>u1\<close> is assigned \<open>admin\<close> twice, and \<open>member\<close>, which it holds already.
\<close>

theorem assignRole_idempotent_witness:
  "snd (assignRole ''u1'' ADMIN (snd (assignRole ''u1'' ADMIN exampleState))) =
     snd (assignRole ''u1'' ADMIN exampleState) \<and>
   findUser exampleState ''u1'' = Some alice \<and>
   findRole exampleState MEMBER = Some memberRole \<and>
   r_id memberRole \<in> r_id ` set (u_roles alice) \<and>
   assignRole ''u1'' MEMBER exampleState = (Inr (), exampleState) \<and>
   findUser (snd (assignRole ''u1'' ADMIN exampleState)) ''u1'' =
     Some (alice\<lparr>u_roles := [memberRole, adminRole]\<rparr>) \<and>
   distinct (map r_id (u_roles alice)) \<and>
   distinct (map r_id (u_roles (alice\<lparr>u_roles := [memberRole, adminRole]\<rparr>)))"
proof -
  have h1: "findUser exampleState ''u1'' = Some alice"
    by (simp add: example_defs findUser_def)
  have h2: "findRole exampleState MEMBER = Some memberRole"
    by (simp add: example_defs findRole_def)
  have h3: "r_id memberRole \<in> r_id ` set (u_roles alice)"
    by (simp add: example_defs)
  have h4: "findUser (snd (assignRole ''u1'' ADMIN exampleState)) ''u1'' =
      Some (alice\<lparr>u_roles := [memberRole, adminRole]\<rparr>)"
    by (simp add: example_defs findUser_def findRole_def assignRole_def saveUser_def)
  have h5: "distinct (map r_id (u_roles alice))"
    by (simp add: example_defs)
  note idem = assignRole_idempotent [of "''u1''" ADMIN exampleState]
  note held = assignRole_idempotent [of "''u1''" MEMBER exampleState]
  have c1: "snd (assignRole ''u1'' ADMIN (snd (assignRole ''u1'' ADMIN exampleState))) =
      snd (assignRole ''u1'' ADMIN exampleState)"
    using idem by blast
  have c2: "assignRole ''u1'' MEMBER exampleState = (Inr (), exampleState)"
    using held h1 h2 h3 by blast
  have c3: "distinct (map r_id (u_roles (alice\<lparr>u_roles := [memberRole, adminRole]\<rparr>)))"
    using idem h1 h4 h5 by blast
  from c1 c2 c3 h1 h2 h3 h4 h5 show ?thesis by blast
qed

section \<open>Creating roles and permissions\<close>




section \<open>Seeding and user creation\<close>

lemma seedPermissions_users [simp]: "users (seedPermissions ps st) = users st"
  by (induction ps arbitrary: st) (auto split: option.splits)

lemma seedPermissions_roles [simp]: "roles (seedPermissions ps st) = roles st"
  by (induction ps arbitrary: st) (auto split: option.splits)

lemma seedRoles_users [simp]: "users (seedRoles gen rds st) = users st"
  by (induction rds arbitrary: st) (auto simp: Let_def split: option.splits)

lemma seedRoles_keeps:
  "n \<in> r_name ` set (roles st) \<Longrightarrow> n \<in> r_name ` set (roles (seedRoles gen rds st))"
proof (induction rds arbitrary: st)
  case Nil
  then show ?case by simp
next
  case (Cons rd rds)
  show ?case
    by (cases "findRole st (rd_name rd)") (use Cons in \<open>auto simp: Let_def intro!: Cons.IH\<close>)
qed

text \<open>After the loop over the built-in roles, each of their names is in the role table.\<close>

lemma seedRoles_creates:
  "rd \<in> set rds \<Longrightarrow> rd_name rd \<in> r_name ` set (roles (seedRoles gen rds st))"
proof (induction rds arbitrary: st)
  case Nil
  then show ?case by simp
next
  case (Cons x rds)
  show ?case
  proof (cases "rd = x")
    case True
    show ?thesis
    proof (cases "findRole st (rd_name x)")
      case None
      then show ?thesis using True
        by (auto simp: Let_def intro!: seedRoles_keeps)
    next
      case (Some r)
      then have "rd_name x \<in> r_name ` set (roles st)"
        using findRole_None_iff [of st "rd_name x"] by simp
      then show ?thesis using True Some
        by (auto intro!: seedRoles_keeps)
    qed
  next
    case False
    with Cons.prems have "rd \<in> set rds" by simp
    then show ?thesis using Cons.IH by simp
  qed
qed

lemma seed_member:
  "MEMBER \<in> r_name ` set (roles (snd (seedRolesAndPermissions gen st)))"
proof -
  have "\<lparr>rd_name = MEMBER, rd_description = ''Basic member with read-only access'',
         rd_permissions = [''transaction:read'', ''company:read'', ''user:read'', ''notice:read'']\<rparr>
        \<in> set APP_ROLES"
    by (simp add: APP_ROLES_def)
  from seedRoles_creates [OF this, of gen "seedPermissions APP_PERMISSIONS st"]
  show ?thesis by (simp add: seedRolesAndPermissions_def)
qed

lemma member_lookup_nonempty:
  "MEMBER \<in> r_name ` set rs \<Longrightarrow> findByNames r_name [MEMBER] rs \<noteq> []"
proof -
  assume "MEMBER \<in> r_name ` set rs"
  then obtain r where "r \<in> set rs" and "r_name r = MEMBER" by auto
  then have "r \<in> set (findByNames r_name [MEMBER] rs)"
    by (simp add: findByNames_def)
  then show ?thesis by auto
qed

lemma seeded_member_lookup:
  "findByNames r_name [MEMBER]
     (roles (seedRoles gen APP_ROLES (seedPermissions APP_PERMISSIONS st))) \<noteq> []"
  using seed_member [of gen st]
  by (intro member_lookup_nonempty) (simp add: seedRolesAndPermissions_def)

lemma deletePattern_users [simp]: "users (deletePattern p st) = users st"
  by (simp add: deletePattern_def)

lemma fold_deletePattern_users [simp]: "users (fold deletePattern ps st) = users st"
  by (induction ps arbitrary: st) auto

lemma invalidateUserCaches_users [simp]: "users (invalidateUserCaches c u st) = users st"
  by (simp add: invalidateUserCaches_def Let_def split: option.splits)

text \<open>
  Claim C10. Every user that \<open>createUser\<close> adds to the user table holds at least one
  role, and so does the user it returns, which is in the table: when no requested role
  is found the built-in tables are reseeded, after which the member role exists.
\<close>

theorem createUser_holds_role:
  "(\<forall>u \<in> set (users (snd (createUser gen password processEmail data companyId userId invited st))).
      u \<notin> set (users st) \<longrightarrow> u_roles u \<noteq> []) \<and>
   (\<forall>u. fst (createUser gen password processEmail data companyId userId invited st) = Inr u \<longrightarrow>
      u \<in> set (users (snd (createUser gen password processEmail data companyId userId invited st)))
      \<and> u_roles u \<noteq> [])"
proof (cases "find (\<lambda>u. u_email u = cu_email data \<and> \<not> u_deleted u) (users st)")
  case (Some existing)
  then show ?thesis by (auto simp: createUser_def)
next
  case None
  note noUser = this
  show ?thesis
  proof (cases "find (\<lambda>c. c_id c = companyId) (companies st)")
    case None
    with noUser show ?thesis by (auto simp: createUser_def)
  next
    case (Some company)
    show ?thesis
    proof (cases "lookupRoles (cu_roles data) st = []")
      case True
      show ?thesis
        using noUser Some True seeded_member_lookup [of gen st]
        by (auto simp: createUser_def Let_def seedRolesAndPermissions_def
            split: if_splits option.splits)
    next
      case False
      show ?thesis
        using noUser Some False
        by (auto simp: createUser_def Let_def split: if_splits option.splits)
    qed
  qed
qed

text \<open>
  On empty role and permission tables a user is created with the unknown role \<open>ghost\<close>:
  the tables are reseeded and the user holds the member role.
\<close>

theorem createUser_holds_role_witness:
  "fst (createUser exampleGen ''pw'' noMailError ghostData ''c1'' ''u0'' False unseededState) =
     Inr dave \<and>
   dave \<in> set (users (snd (createUser exampleGen ''pw'' noMailError ghostData ''c1'' ''u0''
                              False unseededState))) \<and>
   dave \<notin> set (users unseededState) \<and>
   u_roles dave \<noteq> []"
proof -
  have h: "fst (createUser exampleGen ''pw'' noMailError ghostData ''c1'' ''u0'' False
                 unseededState) = Inr dave"
    by (simp add: createUser_def unseededState_def ghostData_def noMailError_def dave_def
        lookupRoles_def findByNames_def seedRolesAndPermissions_def APP_ROLES_def
        APP_PERMISSIONS_def findRole_def findPermission_def Let_def exampleGen_def
        decimal.simps digitChar_def memberPerms_def mkPerm_def MEMBER_def MANAGER_def ADMIN_def
        SUPER_ADMIN_def)
  have new: "dave \<notin> set (users unseededState)"
    by (simp add: unseededState_def)
  from createUser_holds_role
    [of exampleGen "''pw''" noMailError ghostData "''c1''" "''u0''" False unseededState] h new
  show ?thesis by blast
qed

section \<open>Cache keys and invalidation\<close>

text \<open>
  Claim C4. Two list requests of one company with the same page and limit that differ in
  their search text, status and role filters are given the same cache key: the filters
  passed to \<open>generateCacheKey\<close> do not enter the key.
\<close>

theorem getUsers_cacheKey_collision:
  "searchAlice \<noteq> searchSuspended \<and>
   q_search searchAlice \<noteq> q_search searchSuspended \<and>
   q_status searchAlice \<noteq> q_status searchSuspended \<and>
   q_role searchAlice \<noteq> q_role searchSuspended \<and>
   getUsers_cacheKey searchAlice ''c1'' = ''user:list:company:c1:page:1:limit:20'' \<and>
   getUsers_cacheKey searchSuspended ''c1'' = ''user:list:company:c1:page:1:limit:20''"
  by (simp add: searchAlice_def searchSuspended_def getUsers_cacheKey_def generateCacheKey_def
      pushStr_def pushNum_def numberToString_def decimal.simps digitChar_def)

lemma deleteUser_cache:
  "cache (snd (deleteUser ident companyId st)) = cache st \<and>
   clock (snd (deleteUser ident companyId st)) = clock st"
  by (simp add: deleteUser_def saveUser_def split: option.splits)

text \<open>
  Claim C3. With the detail entry of user \<open>u1\<close> and a list page of company \<open>c1\<close> cached,
  \<open>deleteUser\<close> removes the user from the table and leaves both entries in the cache: the
  next \<open>getUserById\<close> still returns the deleted user and the list page still shows it.
  \<open>invalidateUserCaches\<close>, which the other mutations call, removes both.
\<close>

theorem deleteUser_leaves_stale_cache:
  "fst (deleteUser ''u1'' ''c1'' cachedState) = Inr ''User deleted successfully'' \<and>
   findCompanyUser (snd (deleteUser ''u1'' ''c1'' cachedState)) ''u1'' ''c1'' = None \<and>
   fst (getUserById ''u1'' ''c1'' (snd (deleteUser ''u1'' ''c1'' cachedState)))
     = Inr (UserValue alice) \<and>
   cacheGet (snd (deleteUser ''u1'' ''c1'' cachedState)) (getUsers_cacheKey searchAlice ''c1'')
     = Some (PageValue [alice] 1) \<and>
   cacheGet (invalidateUserCaches ''c1'' (Some ''u1'') cachedState) ''user:detail:u1'' = None \<and>
   cacheGet (invalidateUserCaches ''c1'' (Some ''u1'') cachedState)
     (getUsers_cacheKey searchAlice ''c1'') = None"
  by (simp add: cachedState_def getUserById_def withCache_def cacheGet_def cacheSet_def
      deleteUser_def saveUser_def findCompanyUser_def example_defs CACHE_CONFIG_detail_def
      CACHE_CONFIG_list_def searchAlice_def getUsers_cacheKey_def generateCacheKey_def
      pushStr_def pushNum_def numberToString_def decimal.simps digitChar_def invalidateUserCaches_def
      deletePattern_def)

section \<open>Delayed analytics jobs\<close>

lemma calculateAnalytics_queue:
  "analyticsQueue (snd (calculateAnalytics c t u st)) =
     analyticsQueue st @ [\<lparr>j_name = ''calculate-analytics'', j_companyId = c, j_type = t,
                            j_userId = u, j_availableAt = clock st + 2000\<rparr>]"
  by (simp add: calculateAnalytics_def queueAdd_def Let_def)

lemma calculateAnalytics_clock: "clock (snd (calculateAnalytics c t u st)) = clock st"
  by (simp add: calculateAnalytics_def queueAdd_def Let_def)

lemma elapse_queue: "analyticsQueue (elapse ms st) = analyticsQueue st"
  by (simp add: elapse_def)

lemma elapse_clock: "clock (elapse ms st) = clock st + ms"
  by (simp add: elapse_def)

lemma fourTriggers_queue:
  "analyticsQueue fourTriggers =
     map (\<lambda>t. \<lparr>j_name = ''calculate-analytics'', j_companyId = ''c1'', j_type = Summary,
                j_userId = ''u1'', j_availableAt = t\<rparr>) [2000, 2500, 3000, 3500]"
  by (simp add: fourTriggers_def trigger_def calculateAnalytics_queue calculateAnalytics_clock
      elapse_queue elapse_clock exampleState_def)

lemma fourTriggers_clock: "clock fourTriggers = 1500"
  by (simp add: fourTriggers_def trigger_def calculateAnalytics_clock elapse_clock
      exampleState_def)

text \<open>
  Claim C8. Four triggers for company \<open>c1\<close> within two seconds record four jobs. None is
  visible before its own delay has elapsed; two seconds after the last trigger all four
  are visible, each a recomputation of the same analytics of the same company.
\<close>

theorem calculateAnalytics_no_batching:
  "clock fourTriggers = 1500 \<and> length (analyticsQueue fourTriggers) = 4 \<and>
   visibleJobs fourTriggers = [] \<and>
   length (visibleJobs (elapse 500 fourTriggers)) = 1 \<and>
   length (visibleJobs (elapse 2000 fourTriggers)) = 4 \<and>
   list_all (\<lambda>j. j_companyId j = ''c1'' \<and> j_type j = Summary)
     (visibleJobs (elapse 2000 fourTriggers))"
  by (simp add: visibleJobs_def elapse_queue elapse_clock fourTriggers_queue fourTriggers_clock)

end
